theory Spec2Isabelle
  imports Main "HOL-Library.AList"
begin

section \<open>Entity model (types.ts)\<close>

text \<open>
  The TypeScript enum \<^verbatim>\<open>UserRole\<close> and the interfaces \<^verbatim>\<open>Room\<close>, \<^verbatim>\<open>LogEntry\<close>
  and \<^verbatim>\<open>AppState\<close>. The field \<^verbatim>\<open>id\<close> of a room is called \<open>room_id\<close> and the one
  of a log entry \<open>log_id\<close>, since \<open>id\<close> is the identity function of HOL.

  Numbers are modelled as \<open>int\<close>: quantities, temperatures and millisecond timestamps
  are taken to be integer-valued. A JavaScript string is modelled as the list of the
  bytes of its UTF-8 encoding. \<^verbatim>\<open>Record<string, number>\<close> is an association list in
  the order of \<^verbatim>\<open>Object.keys\<close>; a JavaScript object holds each key once.
\<close>

datatype UserRole = ADMIN | AUDITOR | GUEST

record Room =
  room_id :: string
  name :: string
  temperature :: int
  inventory :: "(string \<times> int) list"
  fermentationStart :: "int option"

text \<open>
  \<open>LogPayload\<close> is the object literal built by \<^verbatim>\<open>addLog\<close> (a log entry without its
  id); \<open>LogEntry\<close> adds the id.
\<close>

record LogPayload =
  timestamp :: int
  userRole :: UserRole
  roomName :: string
  action :: string
  details :: string

record LogEntry = LogPayload +
  log_id :: string


definition utf8 :: "nat list \<Rightarrow> string" where
  "utf8 bs = map char_of bs"

text \<open>The seven Arabic material names of \<^verbatim>\<open>INITIAL_MATERIALS\<close>, in source order.\<close>

definition INITIAL_MATERIALS :: "string list" where
  "INITIAL_MATERIALS =
    [utf8 [0xD8, 0xAA, 0xD9, 0x81, 0xD8, 0xA7, 0xD8, 0xAD],
     utf8 [0xD8, 0xB3, 0xD9, 0x83, 0xD8, 0xB1],
     utf8 [0xD8, 0xAE, 0xD9, 0x85, 0xD9, 0x8A, 0xD8, 0xB1, 0xD8, 0xA9],
     utf8 [0xD8, 0xB9, 0xD9, 0x86, 0xD8, 0xA8],
     utf8 [0xD8, 0xB4, 0xD8, 0xB9, 0xD9, 0x8A, 0xD8, 0xB1],
     utf8 [0xD9, 0x85, 0xD8, 0xA7, 0xD8, 0xA1],
     utf8 [0xD8, 0xAE, 0xD8, 0xB4, 0xD8, 0xA8]]"

section \<open>JavaScript built-ins used by the component\<close>





definition Object_keys :: "(string \<times> int) list \<Rightarrow> string list" where
  "Object_keys obj = map fst obj"

text \<open>
  The conversion of a number to a string inside a template literal, for integer values:
  decimal digits, with a leading minus sign for a negative number.
\<close>

definition digit_char :: "nat \<Rightarrow> char" where
  "digit_char d = char_of (48 + d)"

fun digits10 :: "nat \<Rightarrow> string" where
  "digits10 n = (if n < 10 then [digit_char n] else digits10 (n div 10) @ [digit_char (n mod 10)])"

definition Number_toString :: "int \<Rightarrow> string" where
  "Number_toString i = (if i < 0 then CHR ''-'' # digits10 (nat (- i)) else digits10 (nat i))"

section \<open>Calls to the storage service\<close>

text \<open>
  The component changes nothing by itself: every handler issues calls to
  \<^verbatim>\<open>StorageService\<close>. A handler is modelled by the calls it issues, each paired with
  the answer of the service (\<open>True\<close>: the promise resolves, \<open>False\<close>: it rejects), and
  by the way the handler ends. The answers and the readings of \<^verbatim>\<open>Date.now()\<close> are
  the environment \<open>Env\<close> of one invocation.
\<close>

datatype PartialFields = Temperature int | FermentationStart "int option"

datatype StorageCall =
    Call_addRoom string
  | Call_updateRoomFields string PartialFields
  | Call_updateStock string string int
  | Call_addLog LogPayload

type_synonym Trace = "(StorageCall \<times> bool) list"

record Env =
  write_ok :: bool
  log_ok :: bool
  now_write :: int
  now_log :: int

text \<open>
  \<open>Returned\<close>: the guard at the top of the handler returned, nothing was issued.
  \<open>Resolved\<close>: the awaited write resolved and the handler went on to \<^verbatim>\<open>addLog\<close>.
  \<open>Rejected\<close>: the awaited write rejected and the rejection left the handler.
  \<open>Alerted\<close>: the awaited write rejected inside the \<^verbatim>\<open>try\<close> of \<^verbatim>\<open>handleAddRoom\<close>,
  whose \<^verbatim>\<open>catch\<close> logs to the console and shows an alert.
\<close>

datatype Outcome = Returned | Resolved | Rejected | Alerted

section \<open>The handlers of App\<close>

text \<open>The string literals of the handlers (Arabic, as UTF-8), with their meaning.\<close>

definition ACTION_ADD_ROOM :: string where \<comment> \<open>"add room"\<close>
  "ACTION_ADD_ROOM = utf8 [0xD8, 0xA5, 0xD8, 0xB6, 0xD8, 0xA7, 0xD9, 0x81, 0xD8, 0xA9, 0x20,
     0xD8, 0xBA, 0xD8, 0xB1, 0xD9, 0x81, 0xD8, 0xA9]"

definition DETAILS_ADD_ROOM :: string where \<comment> \<open>"a new room was created"\<close>
  "DETAILS_ADD_ROOM = utf8 [0xD8, 0xAA, 0xD9, 0x85, 0x20, 0xD8, 0xA5, 0xD9, 0x86, 0xD8, 0xB4,
     0xD8, 0xA7, 0xD8, 0xA1, 0x20, 0xD8, 0xBA, 0xD8, 0xB1, 0xD9, 0x81, 0xD8, 0xA9, 0x20, 0xD8,
     0xAC, 0xD8, 0xAF, 0xD9, 0x8A, 0xD8, 0xAF, 0xD8, 0xA9]"

definition ACTION_TEMP :: string where \<comment> \<open>"temperature change"\<close>
  "ACTION_TEMP = utf8 [0xD8, 0xAA, 0xD8, 0xB9, 0xD8, 0xAF, 0xD9, 0x8A, 0xD9, 0x84, 0x20, 0xD8,
     0xAD, 0xD8, 0xB1, 0xD8, 0xA7, 0xD8, 0xB1, 0xD8, 0xA9]"

definition TEMP_FROM :: string where \<comment> \<open>"from "\<close>
  "TEMP_FROM = utf8 [0xD9, 0x85, 0xD9, 0x86, 0x20]"

definition TEMP_TO :: string where \<comment> \<open>the degree sign, then " to "\<close>
  "TEMP_TO = utf8 [0xC2, 0xB0, 0x20, 0xD8, 0xA5, 0xD9, 0x84, 0xD9, 0x89, 0x20]"

definition DEGREE :: string where
  "DEGREE = utf8 [0xC2, 0xB0]"

definition ACTION_STOCK_IN :: string where \<comment> \<open>"stock in"\<close>
  "ACTION_STOCK_IN = utf8 [0xD8, 0xA5, 0xD8, 0xAF, 0xD8, 0xAE, 0xD8, 0xA7, 0xD9, 0x84, 0x20,
     0xD9, 0x85, 0xD8, 0xAE, 0xD8, 0xB2, 0xD9, 0x88, 0xD9, 0x86]"

definition ACTION_STOCK_OUT :: string where \<comment> \<open>"stock out"\<close>
  "ACTION_STOCK_OUT = utf8 [0xD8, 0xA5, 0xD8, 0xAE, 0xD8, 0xB1, 0xD8, 0xA7, 0xD8, 0xAC, 0x20,
     0xD9, 0x85, 0xD8, 0xAE, 0xD8, 0xB2, 0xD9, 0x88, 0xD9, 0x86]"

definition ACTION_FERM_START :: string where \<comment> \<open>"fermentation start"\<close>
  "ACTION_FERM_START = utf8 [0xD8, 0xA8, 0xD8, 0xAF, 0xD8, 0xA1, 0x20, 0xD8, 0xAA, 0xD8, 0xAE,
     0xD9, 0x85, 0xD9, 0x8A, 0xD8, 0xB1]"

definition ACTION_FERM_STOP :: string where \<comment> \<open>"fermentation stop"\<close>
  "ACTION_FERM_STOP = utf8 [0xD8, 0xA5, 0xD9, 0x8A, 0xD9, 0x82, 0xD8, 0xA7, 0xD9, 0x81, 0x20,
     0xD8, 0xAA, 0xD8, 0xAE, 0xD9, 0x85, 0xD9, 0x8A, 0xD8, 0xB1]"

definition DETAILS_FERM_START :: string where \<comment> \<open>"the process has started"\<close>
  "DETAILS_FERM_START = utf8 [0xD8, 0xA8, 0xD8, 0xAF, 0xD8, 0xA3, 0xD8, 0xAA, 0x20, 0xD8, 0xA7,
     0xD9, 0x84, 0xD8, 0xB9, 0xD9, 0x85, 0xD9, 0x84, 0xD9, 0x8A, 0xD8, 0xA9]"

definition DETAILS_FERM_STOP :: string where \<comment> \<open>"the process was stopped"\<close>
  "DETAILS_FERM_STOP = utf8 [0xD8, 0xAA, 0xD9, 0x85, 0x20, 0xD8, 0xA5, 0xD9, 0x8A, 0xD9, 0x82,
     0xD8, 0xA7, 0xD9, 0x81, 0x20, 0xD8, 0xA7, 0xD9, 0x84, 0xD8, 0xB9, 0xD9, 0x85, 0xD9, 0x84,
     0xD9, 0x8A, 0xD8, 0xA9]"

text \<open>
  \<^verbatim>\<open>addLog\<close> issues one \<^verbatim>\<open>StorageService.addLog\<close> with the current time and the
  current role. No handler awaits it, so its answer never changes how a handler ends.
\<close>

definition addLog :: "UserRole \<Rightarrow> Env \<Rightarrow> string \<Rightarrow> string \<Rightarrow> string \<Rightarrow> StorageCall \<times> bool" where
  "addLog cu env act rname det =
    (Call_addLog \<lparr>timestamp = now_log env, userRole = cu, roomName = rname,
                   action = act, details = det\<rparr>, log_ok env)"

text \<open>
  \<^verbatim>\<open>await write; addLog(...)\<close>: when the write rejects, the statements after it are
  not run and the handler ends as \<open>failed\<close> says.
\<close>

definition await_then :: "Outcome \<Rightarrow> Env \<Rightarrow> StorageCall \<Rightarrow> StorageCall \<times> bool \<Rightarrow> Outcome \<times> Trace" where
  "await_then failed env write after =
    (if write_ok env then (Resolved, [(write, True), after]) else (failed, [(write, False)]))"

text \<open>The argument is what \<^verbatim>\<open>prompt\<close> gave: \<open>None\<close> when the dialog was cancelled.\<close>

definition handleAddRoom :: "UserRole \<Rightarrow> Env \<Rightarrow> string option \<Rightarrow> Outcome \<times> Trace" where
  "handleAddRoom cu env prompted =
    (case prompted of
       None \<Rightarrow> (Returned, [])
     | Some nm \<Rightarrow>
         if nm = [] then (Returned, [])
         else await_then Alerted env (Call_addRoom nm)
                (addLog cu env ACTION_ADD_ROOM nm DETAILS_ADD_ROOM))"

definition handleUpdateTemp :: "Room list \<Rightarrow> UserRole \<Rightarrow> Env \<Rightarrow> string \<Rightarrow> int \<Rightarrow> Outcome \<times> Trace" where
  "handleUpdateTemp rs cu env i temp =
    (case find (\<lambda>r. room_id r = i) rs of
       None \<Rightarrow> (Returned, [])
     | Some room \<Rightarrow>
         await_then Rejected env (Call_updateRoomFields i (Temperature temp))
           (addLog cu env ACTION_TEMP (name room)
              (TEMP_FROM @ Number_toString (temperature room) @ TEMP_TO
                 @ Number_toString temp @ DEGREE)))"

text \<open>\<^verbatim>\<open>room.inventory[material] || 0\<close>: a missing key and the quantity 0 both give 0.\<close>

definition oldQty_of :: "Room \<Rightarrow> string \<Rightarrow> int" where
  "oldQty_of room material =
    (case map_of (inventory room) material of
       None \<Rightarrow> 0
     | Some q \<Rightarrow> if q \<noteq> 0 then q else 0)"

definition handleUpdateStock ::
  "Room list \<Rightarrow> UserRole \<Rightarrow> Env \<Rightarrow> string \<Rightarrow> string \<Rightarrow> int \<Rightarrow> Outcome \<times> Trace" where
  "handleUpdateStock rs cu env i material amount =
    (case find (\<lambda>r. room_id r = i) rs of
       None \<Rightarrow> (Returned, [])
     | Some room \<Rightarrow>
         let oldQty = oldQty_of room material;
             newQty = oldQty + amount;
             actionType = (if amount > 0 then ACTION_STOCK_IN else ACTION_STOCK_OUT)
         in await_then Rejected env (Call_updateStock i material newQty)
              (addLog cu env actionType (name room)
                 (material @ '': '' @ Number_toString oldQty @ '' -> ''
                    @ Number_toString newQty)))"

text \<open>\<^verbatim>\<open>!room.fermentationStart\<close> is true for \<^verbatim>\<open>null\<close> and for the number 0.\<close>

definition isStarting_of :: "Room \<Rightarrow> bool" where
  "isStarting_of room =
    (case fermentationStart room of None \<Rightarrow> True | Some t \<Rightarrow> t = 0)"

definition handleToggleFermentation ::
  "Room list \<Rightarrow> UserRole \<Rightarrow> Env \<Rightarrow> string \<Rightarrow> Outcome \<times> Trace" where
  "handleToggleFermentation rs cu env i =
    (case find (\<lambda>r. room_id r = i) rs of
       None \<Rightarrow> (Returned, [])
     | Some room \<Rightarrow>
         let isStarting = isStarting_of room
         in await_then Rejected env
              (Call_updateRoomFields i
                 (FermentationStart (if isStarting then Some (now_write env) else None)))
              (addLog cu env (if isStarting then ACTION_FERM_START else ACTION_FERM_STOP)
                 (name room)
                 (if isStarting then DETAILS_FERM_START else DETAILS_FERM_STOP)))"

section \<open>Derived views\<close>

text \<open>
  \<^verbatim>\<open>Set.add\<close> followed by \<^verbatim>\<open>Array.from\<close>: a set keeps its elements in the order of
  their first insertion.
\<close>

definition Set_add :: "'a list \<Rightarrow> 'a \<Rightarrow> 'a list" where
  "Set_add used k = (if k \<in> set used then used else used @ [k])"

definition allMaterials :: "Room list \<Rightarrow> string list" where
  "allMaterials rs =
    (let used = fold (\<lambda>r used. fold (\<lambda>k used. Set_add used k) (Object_keys (inventory r)) used) rs []
     in fold (\<lambda>m used. Set_add used m) INITIAL_MATERIALS used)"




section \<open>The rendered tree and the events of the application\<close>




section \<open>The storage service\<close>

text \<open>
  Modelled from the spec: \<^verbatim>\<open>services/storage.ts\<close> is not among the sources. The two
  collections of the remote store; \<open>next_id\<close> numbers the generated ids, and
  \<open>new_room_temperature\<close> is the temperature a new room gets, which the spec leaves open.
\<close>

record Store =
  store_rooms :: "Room list"
  store_logs :: "LogEntry list"
  next_id :: nat
  new_room_temperature :: int

text \<open>Modelled from the spec: a generated id ("opaque unique identifier").\<close>

definition gen_id :: "nat \<Rightarrow> string" where
  "gen_id n = ''id'' @ digits10 n"

text \<open>
  Modelled from the spec: \<^verbatim>\<open>updateRoomFields(id, partialFields)\<close> overwrites the given
  fields of the room.
\<close>

fun set_fields :: "PartialFields \<Rightarrow> Room \<Rightarrow> Room" where
  "set_fields (Temperature t) r = r\<lparr>temperature := t\<rparr>"
| "set_fields (FermentationStart f) r = r\<lparr>fermentationStart := f\<rparr>"

text \<open>
  Modelled from the spec: the effect of one call on the remote store. A rejected call
  changes nothing. \<^verbatim>\<open>addRoom(name)\<close> creates a room with a generated id, an empty
  inventory and a null \<^verbatim>\<open>fermentationStart\<close>; \<^verbatim>\<open>updateStock(id, material, newQuantity)\<close>
  stores the quantity it is given under the material; \<^verbatim>\<open>addLog(entry)\<close> appends the entry
  with a generated id.
\<close>

fun StorageService :: "StorageCall \<times> bool \<Rightarrow> Store \<Rightarrow> Store" where
  "StorageService (c, False) st = st"
| "StorageService (Call_addRoom nm, True) st =
     st\<lparr>store_rooms := store_rooms st @
           [\<lparr>room_id = gen_id (next_id st), name = nm, temperature = new_room_temperature st,
             inventory = [], fermentationStart = None\<rparr>],
        next_id := Suc (next_id st)\<rparr>"
| "StorageService (Call_updateRoomFields i f, True) st =
     st\<lparr>store_rooms := map (\<lambda>r. if room_id r = i then set_fields f r else r) (store_rooms st)\<rparr>"
| "StorageService (Call_updateStock i material q, True) st =
     st\<lparr>store_rooms :=
          map (\<lambda>r. if room_id r = i then r\<lparr>inventory := AList.update material q (inventory r)\<rparr>
                    else r) (store_rooms st)\<rparr>"
| "StorageService (Call_addLog p, True) st =
     st\<lparr>store_logs := store_logs st @
           [\<lparr>timestamp = timestamp p, userRole = userRole p, roomName = roomName p,
             action = action p, details = details p, log_id = gen_id (next_id st)\<rparr>],
        next_id := Suc (next_id st)\<rparr>"

section \<open>The component together with the store\<close>







fun is_accepted_addLog :: "StorageCall \<times> bool \<Rightarrow> bool" where
  "is_accepted_addLog (Call_addLog p, ok) = ok"
| "is_accepted_addLog (c, ok) = False"









section \<open>The filter in the words of the specification\<close>




section \<open>Sample states\<close>


definition room_zero :: Room where
  "room_zero = \<lparr>room_id = ''r1'', name = ''R1'', temperature = 18, inventory = [],
                 fermentationStart = Some 0\<rparr>"


definition room_empty_key :: Room where
  "room_empty_key = \<lparr>room_id = ''r2'', name = ''Cellar'', temperature = 12,
      inventory = [(''Yeast'', 0), (''sugar'', 3)], fermentationStart = None\<rparr>"

definition room_plain :: Room where
  "room_plain = \<lparr>room_id = ''r3'', name = ''Attic'', temperature = 15,
      inventory = [(''salt'', 1)], fermentationStart = None\<rparr>"

definition env_ok :: Env where
  "env_ok = \<lparr>write_ok = True, log_ok = True, now_write = 1000, now_log = 1001\<rparr>"




section \<open>Auxiliary facts\<close>

lemma labels_distinct:
  "ACTION_FERM_START \<noteq> ACTION_FERM_STOP" "ACTION_STOCK_IN \<noteq> ACTION_STOCK_OUT"
  by (simp_all add: ACTION_FERM_START_def ACTION_FERM_STOP_def ACTION_STOCK_IN_def
      ACTION_STOCK_OUT_def utf8_def)

lemma find_absent: "i \<notin> set (map room_id rs) \<Longrightarrow> find (\<lambda>r. room_id r = i) rs = None"
  by (induction rs) auto


lemma store_rooms_addLog [simp]:
  "store_rooms (StorageService (Call_addLog p, ok) st) = store_rooms st"
  by (cases ok) simp_all







section \<open>Stock adjustment\<close>






section \<open>Invalid input\<close>

text \<open>
  C8. A mutation call with invalid input issues no call to the storage service at all,
  hence no \<^verbatim>\<open>addLog\<close> either: \<^verbatim>\<open>handleAddRoom\<close> when the prompt was cancelled or gave
  the empty string, and the three room handlers when no room of the mirror has the
  target id. The handler just returns.
\<close>

theorem invalid_input_issues_nothing:
  "handleAddRoom cu env None = (Returned, [])
   \<and> handleAddRoom cu env (Some []) = (Returned, [])
   \<and> (i \<notin> set (map room_id rs) \<longrightarrow>
        handleUpdateTemp rs cu env i temp = (Returned, [])
      \<and> handleUpdateStock rs cu env i material amount = (Returned, [])
      \<and> handleToggleFermentation rs cu env i = (Returned, []))"
  by (simp add: handleAddRoom_def handleUpdateTemp_def handleUpdateStock_def
      handleToggleFermentation_def find_absent)

theorem invalid_input_issues_nothing_witness:
  "''r9'' \<notin> set (map room_id [room_zero])
   \<and> handleUpdateTemp [room_zero] ADMIN env_ok ''r9'' 20 = (Returned, [])
   \<and> handleUpdateStock [room_zero] ADMIN env_ok ''r9'' ''sugar'' 10 = (Returned, [])
   \<and> handleToggleFermentation [room_zero] ADMIN env_ok ''r9'' = (Returned, [])"
proof -
  have h: "''r9'' \<notin> set (map room_id [room_zero])"
    by (simp add: room_zero_def)
  with invalid_input_issues_nothing [of ADMIN env_ok "''r9''" "[room_zero]" 20 "''sugar''" 10]
  show ?thesis by simp
qed

section \<open>Fermentation\<close>

text \<open>
  C10. When the room found for the id has \<^verbatim>\<open>fermentationStart\<close> equal to the number 0,
  \<^verbatim>\<open>handleToggleFermentation\<close> takes the room as inactive: the write it issues sets
  \<^verbatim>\<open>fermentationStart\<close> to the current time, not to null, and the log entry it then
  requests carries the "fermentation start" action, which is not the "stop" action.
\<close>

theorem toggle_zero_starts:
  assumes "find (\<lambda>r. room_id r = i) rs = Some room"
    and "fermentationStart room = Some 0"
  shows "handleToggleFermentation rs cu env i =
     (if write_ok env
      then (Resolved,
            [(Call_updateRoomFields i (FermentationStart (Some (now_write env))), True),
             (Call_addLog \<lparr>timestamp = now_log env, userRole = cu, roomName = name room,
                 action = ACTION_FERM_START, details = DETAILS_FERM_START\<rparr>, log_ok env)])
      else (Rejected,
            [(Call_updateRoomFields i (FermentationStart (Some (now_write env))), False)]))
     \<and> ACTION_FERM_START \<noteq> ACTION_FERM_STOP"
  using assms
  by (simp add: handleToggleFermentation_def isStarting_of_def await_then_def addLog_def
      labels_distinct)

theorem toggle_zero_starts_witness:
  "find (\<lambda>r. room_id r = ''r1'') [room_zero] = Some room_zero
   \<and> fermentationStart room_zero = Some 0
   \<and> handleToggleFermentation [room_zero] GUEST env_ok ''r1'' =
       (Resolved,
        [(Call_updateRoomFields ''r1'' (FermentationStart (Some 1000)), True),
         (Call_addLog \<lparr>timestamp = 1001, userRole = GUEST, roomName = ''R1'',
             action = ACTION_FERM_START, details = DETAILS_FERM_START\<rparr>, True)])"
proof -
  have h1: "find (\<lambda>r. room_id r = ''r1'') [room_zero] = Some room_zero"
    by (simp add: room_zero_def)
  have h2: "fermentationStart room_zero = Some 0"
    by (simp add: room_zero_def)
  from toggle_zero_starts [OF h1 h2, of GUEST env_ok] h1 h2 show ?thesis
    by (simp add: env_ok_def room_zero_def)
qed





section \<open>Log entries and successful calls\<close>



lemma rejected_not_accepted [simp]: "\<not> is_accepted_addLog (c, False)"
  by (cases c) simp_all











section \<open>The role gate of Add room\<close>







section \<open>Properties of the derived views\<close>









lemma set_fold_Set_add: "set (fold (\<lambda>k used. Set_add used k) ks used) = set used \<union> set ks"
  by (induction ks arbitrary: used) (auto simp: Set_add_def)

lemma distinct_fold_Set_add:
  "distinct used \<Longrightarrow> distinct (fold (\<lambda>k used. Set_add used k) ks used)"
  by (induction ks arbitrary: used) (auto simp: Set_add_def)

lemma set_fold_rooms:
  "set (fold (\<lambda>r used. fold (\<lambda>k used. Set_add used k) (Object_keys (inventory r)) used) rs used) =
     set used \<union> (\<Union>r\<in>set rs. set (Object_keys (inventory r)))"
  by (induction rs arbitrary: used) (auto simp: set_fold_Set_add)

lemma distinct_fold_rooms:
  "distinct used \<Longrightarrow>
   distinct (fold (\<lambda>r used. fold (\<lambda>k used. Set_add used k) (Object_keys (inventory r)) used) rs used)"
  by (induction rs arbitrary: used) (auto simp: distinct_fold_Set_add)

lemma set_allMaterials:
  "set (allMaterials rs) =
     set INITIAL_MATERIALS \<union> (\<Union>r\<in>set rs. set (Object_keys (inventory r)))"
  by (auto simp add: allMaterials_def Let_def set_fold_Set_add set_fold_rooms)

lemma distinct_allMaterials: "distinct (allMaterials rs)"
  by (simp add: allMaterials_def Let_def distinct_fold_Set_add distinct_fold_rooms)

text \<open>
  C7. For every list of rooms, \<open>allMaterials\<close> has no duplicates and its elements are
  exactly the seed materials together with every key of every room's inventory; so every
  key of every room's inventory is in the catalog.
\<close>

theorem allMaterials_union:
  "distinct (allMaterials rs)
   \<and> set (allMaterials rs) =
       set INITIAL_MATERIALS \<union> (\<Union>r\<in>set rs. set (Object_keys (inventory r)))
   \<and> (\<forall>r\<in>set rs. \<forall>k\<in>set (Object_keys (inventory r)). k \<in> set (allMaterials rs))"
  by (simp add: distinct_allMaterials) (auto simp add: set_allMaterials)

theorem allMaterials_union_witness:
  "room_empty_key \<in> set [room_plain, room_empty_key]
   \<and> ''Yeast'' \<in> set (Object_keys (inventory room_empty_key))
   \<and> ''Yeast'' \<in> set (allMaterials [room_plain, room_empty_key])
   \<and> distinct (allMaterials [room_plain, room_empty_key])"
proof -
  have h1: "room_empty_key \<in> set [room_plain, room_empty_key]"
    by simp
  have h2: "''Yeast'' \<in> set (Object_keys (inventory room_empty_key))"
    by (simp add: Object_keys_def room_empty_key_def)
  from allMaterials_union [of "[room_plain, room_empty_key]"] h1 h2
  show ?thesis by blast
qed





end
